theory Spec2Isabelle
  imports Complex_Main "HOL-Library.AList" "HOL-Library.Sublist"
begin

section \<open>Python values, dictionaries and exceptions\<close>

text \<open>
  The settings module stores and returns Python values without computing on them. The
  values that can sit in a settings record or in the JSON document are modelled by
  \<open>pyval\<close>: \<open>None\<close>, booleans, integers, floats (carried as reals: the module never
  does arithmetic on them), strings, lists and dictionaries with string keys.

  A Python \<open>dict\<close> keeps its keys in insertion order, and assigning to a key that is
  already there keeps the key's position. It is modelled by an association list with
  \<open>map_of\<close> for reading and \<open>AList.update\<close> for item assignment.
\<close>

type_synonym ('k, 'v) dict = "('k \<times> 'v) list"

datatype pyval =
    PNone
  | PBool bool
  | PInt int
  | PFloat real
  | PStr string
  | PList "pyval list"
  | PDict "(string \<times> pyval) list"

datatype error = KeyError | AttributeError | TypeError | ValueError | OSError

section \<open>String and path functions of the Python library\<close>

text \<open>\<open>str.replace(old, new)\<close>: every non-overlapping occurrence of \<open>old\<close>, from the left.\<close>

function py_replace :: "string \<Rightarrow> string \<Rightarrow> string \<Rightarrow> string" where
  "py_replace old new [] = (if old = [] then new else [])"
| "py_replace old new (c # cs) =
     (if old = [] then new @ c # py_replace old new cs
      else if prefix old (c # cs) then new @ py_replace old new (drop (length old) (c # cs))
      else c # py_replace old new cs)"
  by pat_completeness auto
termination
  by (relation "measure (\<lambda>(old, new, s). length s)") (auto simp: neq_Nil_conv)

text \<open>\<open>str.strip()\<close> removes the white space at both ends (\<open>str.isspace\<close> on code points below 256).\<close>

definition isspace :: "char \<Rightarrow> bool" where
  "isspace c = (of_char c \<in> set [9, 10, 11, 12, 13, 28, 29, 30, 31, 32, 133, 160 :: nat])"

definition strip :: "string \<Rightarrow> string" where
  "strip s = rev (dropWhile isspace (rev (dropWhile isspace s)))"

text \<open>\<open>str.rfind(c)\<close> for a single character: the last index of \<open>c\<close>, or \<open>-1\<close>.\<close>

definition rfind :: "string \<Rightarrow> char \<Rightarrow> int" where
  "rfind p c =
     (if c \<in> set p then int (length p) - 1 - int (length (takeWhile (\<lambda>x. x \<noteq> c) (rev p)))
      else - 1)"

text \<open>\<open>os.path.join(a, b)\<close>, \<open>os.path.basename\<close> and \<open>os.path.splitext\<close> of \<open>posixpath\<close>.\<close>

definition path_join :: "string \<Rightarrow> string \<Rightarrow> string" where
  "path_join a b =
     (if prefix ''/'' b then b
      else if a = [] \<or> suffix ''/'' a then a @ b
      else a @ ''/'' @ b)"

definition basename :: "string \<Rightarrow> string" where
  "basename p = drop (nat (rfind p (CHR ''/'') + 1)) p"

function splitext_loop :: "string \<Rightarrow> int \<Rightarrow> int \<Rightarrow> string \<times> string" where
  "splitext_loop p filenameIndex dotIndex =
     (if filenameIndex < dotIndex then
        (if take 1 (drop (nat filenameIndex) p) \<noteq> ''.''
         then (take (nat dotIndex) p, drop (nat dotIndex) p)
         else splitext_loop p (filenameIndex + 1) dotIndex)
      else (p, []))"
  by pat_completeness auto
termination
  by (relation "measure (\<lambda>(p, i, d). nat (d - i))") auto

declare splitext_loop.simps [simp del]

definition splitext :: "string \<Rightarrow> string \<times> string" where
  "splitext p =
     (let sepIndex = rfind p (CHR ''/''); dotIndex = rfind p (CHR ''.'')
      in if dotIndex > sepIndex then splitext_loop p (sepIndex + 1) dotIndex else (p, []))"

section \<open>The font scanner\<close>

text \<open>
  What the scanner reads from its surroundings is a parameter: the working directory,
  which paths are directories, whether the interpreter is frozen and its bundle root
  (\<open>sys._MEIPASS\<close>, an attribute that may be missing), and what \<open>glob.glob\<close> returns
  for a pattern.
\<close>

record environ =
  cwd :: string
  isdir :: "string \<Rightarrow> bool"
  frozen :: bool
  MEIPASS :: "string option"
  glob :: "string \<Rightarrow> string list"

definition get_fonts_directory :: "environ \<Rightarrow> error + string option" where
  "get_fonts_directory env =
     (let fonts_dir = path_join (cwd env) ''fonts'' in
      if isdir env fonts_dir then Inr (Some fonts_dir)
      else if frozen env then
        (case MEIPASS env of
           None \<Rightarrow> Inl AttributeError
         | Some bundle \<Rightarrow>
             (let fonts_dir = path_join bundle ''fonts'' in
              if isdir env fonts_dir then Inr (Some fonts_dir) else Inr None))
      else Inr None)"

text \<open>Lines 41 to 48: the display name of one matched path.\<close>

definition display_name :: "string \<Rightarrow> string" where
  "display_name font_path =
     (let filename = basename font_path;
          name = fst (splitext filename);
          display_name = py_replace ''_'' '' '' (py_replace ''-'' '' '' name)
      in fold (\<lambda>suffix display_name. strip (py_replace suffix [] display_name))
           [''Regular'', ''VariableFont wdth,wght'', ''VariableFont''] display_name)"

definition scan_available_fonts :: "environ \<Rightarrow> error + (string, string) dict" where
  "scan_available_fonts env =
     (case get_fonts_directory env of
        Inl e \<Rightarrow> Inl e
      | Inr fonts_dir \<Rightarrow>
          Inr (case fonts_dir of
                 None \<Rightarrow> []
               | Some d \<Rightarrow>
                   if d \<noteq> [] \<and> isdir env d then
                     fold (\<lambda>ext fonts.
                             fold (\<lambda>font_path fonts.
                                     AList.update (display_name font_path) font_path fonts)
                               (glob env (path_join d ext)) fonts)
                       [''*.ttf'', ''*.otf'', ''*.TTF'', ''*.OTF''] []
                   else []))"

text \<open>
  \<open>default_font\<close> and \<open>DEFAULT_SETTINGS\<close> are computed once from \<open>AVAILABLE_FONTS\<close>,
  the catalog the scan returned when the module was loaded.
\<close>

definition default_font :: "(string, string) dict \<Rightarrow> string" where
  "default_font AVAILABLE_FONTS =
     (case AVAILABLE_FONTS of [] \<Rightarrow> ''Roboto'' | (k, _) # _ \<Rightarrow> k)"

definition DEFAULT_SETTINGS :: "(string, string) dict \<Rightarrow> (string, pyval) dict" where
  "DEFAULT_SETTINGS AVAILABLE_FONTS =
     [(''font_name'', PStr (default_font AVAILABLE_FONTS)),
      (''font_scale'', PFloat 1),
      (''launch_maximized'', PBool False)]"

definition get_font_path :: "(string, string) dict \<Rightarrow> string \<Rightarrow> string option" where
  "get_font_path AVAILABLE_FONTS font_name = map_of AVAILABLE_FONTS font_name"

section \<open>The backing store\<close>

text \<open>
  \<open>JsonStore\<close> belongs to the Kivy library, not to this module; it is modelled after
  \<open>kivy/storage/jsonstore.py\<close>. A store object keeps the whole document in its
  attribute \<open>_data\<close>: whatever JSON value the file held when the store was created, an
  empty dictionary for a missing or empty file. Serialisation is taken to be faithful on
  \<open>pyval\<close>, so the text of a file is given by the document it encodes.
\<close>

datatype settings_file = Absent | Text pyval | Broken

text \<open>
  How the file system answers one attempt to write the file: it takes the text, or the
  attempt raises \<open>OSError\<close> and leaves the given content behind (the old content when
  the file could not be opened, a cut-off text when the write broke off).
\<close>

datatype disk = Writes | Fails settings_file

record JsonStore =
  data :: pyval
  on_disk :: settings_file

text \<open>\<open>JsonStore(filename)\<close>: text that is not JSON makes \<open>json.loads\<close> raise.\<close>

definition JsonStore_init :: "settings_file \<Rightarrow> error + JsonStore" where
  "JsonStore_init f =
     (case f of
        Absent \<Rightarrow> Inr \<lparr>data = PDict [], on_disk = f\<rparr>
      | Text d \<Rightarrow> Inr \<lparr>data = d, on_disk = f\<rparr>
      | Broken \<Rightarrow> Inl ValueError)"

text \<open>
  \<open>exists(key)\<close> is \<open>key in self._data\<close>: membership in a dictionary, an equal element
  of a list, a substring of a string, and \<open>TypeError\<close> on a value that is not a
  container.
\<close>

definition store_exists :: "JsonStore \<Rightarrow> string \<Rightarrow> error + bool" where
  "store_exists st key =
     (case data st of
        PDict entries \<Rightarrow> Inr (case map_of entries key of None \<Rightarrow> False | Some _ \<Rightarrow> True)
      | PList xs \<Rightarrow> Inr (PStr key \<in> set xs)
      | PStr s \<Rightarrow> Inr (sublist key s)
      | _ \<Rightarrow> Inl TypeError)"

text \<open>
  \<open>get(key)\<close> is \<open>self._data[key]\<close>: \<open>KeyError\<close> for a key the dictionary lacks,
  \<open>TypeError\<close> for a string index into anything else.
\<close>

definition store_get :: "JsonStore \<Rightarrow> string \<Rightarrow> error + pyval" where
  "store_get st key =
     (case data st of
        PDict entries \<Rightarrow> (case map_of entries key of None \<Rightarrow> Inl KeyError | Some e \<Rightarrow> Inr e)
      | _ \<Rightarrow> Inl TypeError)"

text \<open>
  \<open>put(key, value=v)\<close> first assigns \<open>self._data[key] = {'value': v}\<close>, which raises
  \<open>TypeError\<close> unless \<open>_data\<close> is a dictionary, and then writes the whole of \<open>_data\<close>
  to the file. When the write raises, the assignment to \<open>_data\<close> stays.
\<close>

definition store_put ::
  "disk \<Rightarrow> JsonStore \<Rightarrow> string \<Rightarrow> pyval \<Rightarrow> (error + unit) \<times> JsonStore" where
  "store_put dk st key v =
     (case data st of
        PDict entries \<Rightarrow>
          (let st1 = st\<lparr>data := PDict (AList.update key (PDict [(''value'', v)]) entries)\<rparr>
           in case dk of
                Writes \<Rightarrow> (Inr (), st1\<lparr>on_disk := Text (data st1)\<rparr>)
              | Fails f \<Rightarrow> (Inl OSError, st1\<lparr>on_disk := f\<rparr>))
      | _ \<Rightarrow> (Inl TypeError, st))"

text \<open>
  The method call \<open>stored.get(k, d)\<close> on a Python value: a dictionary looks \<open>k\<close> up,
  every other value of \<open>pyval\<close> has no method \<open>get\<close> and raises \<open>AttributeError\<close>.
\<close>

definition dict_get :: "pyval \<Rightarrow> string \<Rightarrow> pyval \<Rightarrow> error + pyval" where
  "dict_get stored k d =
     (case stored of
        PDict items \<Rightarrow> Inr (case map_of items k of None \<Rightarrow> d | Some v \<Rightarrow> v)
      | _ \<Rightarrow> Inl AttributeError)"

section \<open>The settings manager\<close>

text \<open>
  The attributes \<open>_initialized\<close>, \<open>_store\<close> and \<open>_settings\<close> of the instance. A method
  that can raise returns the exception or its result together with the instance as the
  call left it.
\<close>

record SettingsManager =
  initialized :: bool
  store :: "JsonStore option"
  settings :: "(string, pyval) dict"

text \<open>
  \<open>__new__\<close> returns the class's instance, creating it when there is none; the new
  object has only \<open>_initialized\<close>, the other two fields are placeholders that
  \<open>__init__\<close> overwrites at once.
\<close>

definition SettingsManager_new :: "SettingsManager option \<Rightarrow> SettingsManager" where
  "SettingsManager_new instance =
     (case instance of
        None \<Rightarrow> \<lparr>initialized = False, store = None, settings = []\<rparr>
      | Some m \<Rightarrow> m)"

definition SettingsManager_init ::
  "(string, string) dict \<Rightarrow> SettingsManager \<Rightarrow> SettingsManager" where
  "SettingsManager_init AVAILABLE_FONTS m =
     (if initialized m then m
      else m\<lparr>initialized := True, store := None,
             settings := DEFAULT_SETTINGS AVAILABLE_FONTS\<rparr>)"

text \<open>The call \<open>SettingsManager()\<close>, given the class attribute \<open>_instance\<close>.\<close>

definition construct ::
  "(string, string) dict \<Rightarrow> SettingsManager option \<Rightarrow> SettingsManager" where
  "construct AVAILABLE_FONTS instance =
     SettingsManager_init AVAILABLE_FONTS (SettingsManager_new instance)"

text \<open>
  The loop of \<open>_load_settings\<close>, lines 128 to 136, on the record \<open>s\<close>. The call of
  \<open>exists\<close> stands outside the \<open>try\<close>: its exception ends the loop and leaves the
  method, with the keys assigned so far. \<open>except Exception\<close> catches every exception
  of the two reads inside the \<open>try\<close>.
\<close>

fun load_loop ::
  "JsonStore \<Rightarrow> (string \<times> pyval) list \<Rightarrow> (string, pyval) dict
     \<Rightarrow> (error + unit) \<times> (string, pyval) dict" where
  "load_loop st [] s = (Inr (), s)"
| "load_loop st ((key, default_value) # items) s =
     (case store_exists st key of
        Inl e \<Rightarrow> (Inl e, s)
      | Inr found \<Rightarrow>
          if found then
            (case (case store_get st key of
                     Inl e \<Rightarrow> Inl e
                   | Inr stored \<Rightarrow> dict_get stored ''value'' default_value) of
               Inr v \<Rightarrow> load_loop st items (AList.update key v s)
             | Inl e \<Rightarrow> load_loop st items (AList.update key default_value s))
          else load_loop st items (AList.update key default_value s))"

definition load_settings ::
  "(string, string) dict \<Rightarrow> SettingsManager \<Rightarrow> (error + unit) \<times> SettingsManager" where
  "load_settings AVAILABLE_FONTS m =
     (case store m of
        None \<Rightarrow> (Inr (), m)
      | Some st \<Rightarrow>
          (case load_loop st (DEFAULT_SETTINGS AVAILABLE_FONTS) (settings m) of
             (r, s) \<Rightarrow> (r, m\<lparr>settings := s\<rparr>)))"

text \<open>
  \<open>initialize\<close>: \<open>opened\<close> is the outcome of \<open>JsonStore(self._get_settings_path())\<close>,
  the store on the settings file or the exception that resolving the path, creating the
  directory or reading the file raised.
\<close>

definition initialize ::
  "(string, string) dict \<Rightarrow> SettingsManager \<Rightarrow> error + JsonStore
     \<Rightarrow> (error + unit) \<times> SettingsManager" where
  "initialize AVAILABLE_FONTS m opened =
     (case opened of
        Inl e \<Rightarrow> (Inl e, m)
      | Inr st \<Rightarrow> load_settings AVAILABLE_FONTS (m\<lparr>store := Some st\<rparr>))"

text \<open>
  \<open>_save_setting\<close>; \<open>dk\<close> is the answer of the file system to the write of this call.
  The store object is changed in place, so the instance holds it as \<open>put\<close> left it
  also when \<open>put\<close> raised.
\<close>

definition save_setting ::
  "disk \<Rightarrow> SettingsManager \<Rightarrow> string \<Rightarrow> pyval \<Rightarrow> (error + unit) \<times> SettingsManager" where
  "save_setting dk m key v =
     (case store m of
        None \<Rightarrow> (Inr (), m)
      | Some st \<Rightarrow>
          (case store_put dk st key v of (r, st') \<Rightarrow> (r, m\<lparr>store := Some st'\<rparr>)))"

text \<open>\<open>get(key, default=None)\<close>: \<open>dflt\<close> is the argument \<open>default\<close>, \<open>PNone\<close> in a call without it.\<close>

definition get ::
  "(string, string) dict \<Rightarrow> SettingsManager \<Rightarrow> string \<Rightarrow> pyval \<Rightarrow> pyval" where
  "get AVAILABLE_FONTS m key dflt =
     (case map_of (settings m) key of
        Some v \<Rightarrow> v
      | None \<Rightarrow>
          (if dflt \<noteq> PNone then dflt
           else (case map_of (DEFAULT_SETTINGS AVAILABLE_FONTS) key of
                   None \<Rightarrow> PNone
                 | Some d \<Rightarrow> d)))"

definition set_setting ::
  "disk \<Rightarrow> SettingsManager \<Rightarrow> string \<Rightarrow> pyval \<Rightarrow> (error + unit) \<times> SettingsManager" where
  "set_setting dk m key v =
     save_setting dk (m\<lparr>settings := AList.update key v (settings m)\<rparr>) key v"

text \<open>The three properties and their setters.\<close>

definition font_name :: "(string, string) dict \<Rightarrow> SettingsManager \<Rightarrow> pyval" where
  "font_name AVAILABLE_FONTS m = get AVAILABLE_FONTS m ''font_name'' PNone"

definition font_name_setter ::
  "disk \<Rightarrow> SettingsManager \<Rightarrow> pyval \<Rightarrow> (error + unit) \<times> SettingsManager" where
  "font_name_setter dk m v = set_setting dk m ''font_name'' v"

definition font_scale :: "(string, string) dict \<Rightarrow> SettingsManager \<Rightarrow> pyval" where
  "font_scale AVAILABLE_FONTS m = get AVAILABLE_FONTS m ''font_scale'' PNone"

definition font_scale_setter ::
  "disk \<Rightarrow> SettingsManager \<Rightarrow> pyval \<Rightarrow> (error + unit) \<times> SettingsManager" where
  "font_scale_setter dk m v = set_setting dk m ''font_scale'' v"

definition launch_maximized :: "(string, string) dict \<Rightarrow> SettingsManager \<Rightarrow> pyval" where
  "launch_maximized AVAILABLE_FONTS m = get AVAILABLE_FONTS m ''launch_maximized'' PNone"

definition launch_maximized_setter ::
  "disk \<Rightarrow> SettingsManager \<Rightarrow> pyval \<Rightarrow> (error + unit) \<times> SettingsManager" where
  "launch_maximized_setter dk m v = set_setting dk m ''launch_maximized'' v"

text \<open>
  The states an instance can be in: what construction gives, and what any sequence of
  calls of the methods that change the instance makes of it, whatever the file system
  answers. \<open>get\<close> and the property getters return a value and leave the instance as it
  is.
\<close>

inductive reachable :: "(string, string) dict \<Rightarrow> SettingsManager \<Rightarrow> bool"
  for AVAILABLE_FONTS :: "(string, string) dict" where
  constructed: "reachable AVAILABLE_FONTS (construct AVAILABLE_FONTS None)"
| constructed_again:
    "reachable AVAILABLE_FONTS m \<Longrightarrow> reachable AVAILABLE_FONTS (construct AVAILABLE_FONTS (Some m))"
| initialized:
    "reachable AVAILABLE_FONTS m \<Longrightarrow>
     reachable AVAILABLE_FONTS (snd (initialize AVAILABLE_FONTS m opened))"
| was_set:
    "reachable AVAILABLE_FONTS m \<Longrightarrow> reachable AVAILABLE_FONTS (snd (set_setting dk m key v))"
| font_name_set:
    "reachable AVAILABLE_FONTS m \<Longrightarrow> reachable AVAILABLE_FONTS (snd (font_name_setter dk m v))"
| font_scale_set:
    "reachable AVAILABLE_FONTS m \<Longrightarrow> reachable AVAILABLE_FONTS (snd (font_scale_setter dk m v))"
| launch_maximized_set:
    "reachable AVAILABLE_FONTS m \<Longrightarrow>
     reachable AVAILABLE_FONTS (snd (launch_maximized_setter dk m v))"

text \<open>
  A stored entry that makes the loop assign \<open>None\<close> to a key: a dictionary whose
  \<open>value\<close> field is \<open>None\<close>.
\<close>

definition loads_none :: "JsonStore \<Rightarrow> string \<Rightarrow> bool" where
  "loads_none st key =
     (case data st of
        PDict entries \<Rightarrow>
          (case map_of entries key of
             Some (PDict items) \<Rightarrow> map_of items ''value'' = Some PNone
           | _ \<Rightarrow> False)
      | _ \<Rightarrow> False)"

text \<open>
  The states reached without \<open>None\<close> coming in for a key of \<open>DEFAULT_SETTINGS\<close>: no
  call of \<open>set\<close> or of a setter passes \<open>None\<close> for such a key, and no store that
  \<open>initialize\<close> loads holds \<open>None\<close> as the value of one.
\<close>

inductive reachable_without_none :: "(string, string) dict \<Rightarrow> SettingsManager \<Rightarrow> bool"
  for AVAILABLE_FONTS :: "(string, string) dict" where
  constructed': "reachable_without_none AVAILABLE_FONTS (construct AVAILABLE_FONTS None)"
| constructed_again':
    "reachable_without_none AVAILABLE_FONTS m \<Longrightarrow>
     reachable_without_none AVAILABLE_FONTS (construct AVAILABLE_FONTS (Some m))"
| not_opened':
    "reachable_without_none AVAILABLE_FONTS m \<Longrightarrow>
     reachable_without_none AVAILABLE_FONTS (snd (initialize AVAILABLE_FONTS m (Inl e)))"
| initialized':
    "reachable_without_none AVAILABLE_FONTS m \<Longrightarrow>
     list_all (\<lambda>item. \<not> loads_none st (fst item)) (DEFAULT_SETTINGS AVAILABLE_FONTS) \<Longrightarrow>
     reachable_without_none AVAILABLE_FONTS (snd (initialize AVAILABLE_FONTS m (Inr st)))"
| was_set':
    "reachable_without_none AVAILABLE_FONTS m \<Longrightarrow>
     v \<noteq> PNone \<or> map_of (DEFAULT_SETTINGS AVAILABLE_FONTS) key = None \<Longrightarrow>
     reachable_without_none AVAILABLE_FONTS (snd (set_setting dk m key v))"
| font_name_set':
    "reachable_without_none AVAILABLE_FONTS m \<Longrightarrow> v \<noteq> PNone \<Longrightarrow>
     reachable_without_none AVAILABLE_FONTS (snd (font_name_setter dk m v))"
| font_scale_set':
    "reachable_without_none AVAILABLE_FONTS m \<Longrightarrow> v \<noteq> PNone \<Longrightarrow>
     reachable_without_none AVAILABLE_FONTS (snd (font_scale_setter dk m v))"
| launch_maximized_set':
    "reachable_without_none AVAILABLE_FONTS m \<Longrightarrow> v \<noteq> PNone \<Longrightarrow>
     reachable_without_none AVAILABLE_FONTS (snd (launch_maximized_setter dk m v))"

section \<open>What the specification says, in its own words\<close>

text \<open>
  The value the specification gives a key after loading: the stored value when the store
  has the key and its entry is a dictionary with a \<open>value\<close> field, the default when the
  store lacks the key, when the entry lacks the field, or when reading the entry raises.
\<close>

definition expected_value :: "JsonStore \<Rightarrow> string \<Rightarrow> pyval \<Rightarrow> pyval" where
  "expected_value st key default_value =
     (case data st of
        PDict entries \<Rightarrow>
          (case map_of entries key of
             None \<Rightarrow> default_value
           | Some stored \<Rightarrow>
               (case stored of
                  PDict items \<Rightarrow>
                    (case map_of items ''value'' of None \<Rightarrow> default_value | Some v \<Rightarrow> v)
                | _ \<Rightarrow> default_value))
      | _ \<Rightarrow> default_value)"

text \<open>
  The answer the specification gives for \<open>get(key, default)\<close>: the in-memory value if the
  key is present, otherwise the caller's default, otherwise the module's default for the
  key, otherwise \<open>None\<close>.
\<close>

definition get_spec ::
  "(string, pyval) dict \<Rightarrow> (string, pyval) dict \<Rightarrow> string \<Rightarrow> pyval \<Rightarrow> pyval" where
  "get_spec defaults record key dflt =
     (if key \<in> fst ` set record then the (map_of record key)
      else if dflt \<noteq> PNone then dflt
      else if key \<in> fst ` set defaults then the (map_of defaults key)
      else PNone)"

text \<open>A document that is a JSON object, array or string, on which \<open>in\<close> is defined.\<close>

definition is_container :: "pyval \<Rightarrow> bool" where
  "is_container d =
     (case d of PDict _ \<Rightarrow> True | PList _ \<Rightarrow> True | PStr _ \<Rightarrow> True | _ \<Rightarrow> False)"

text \<open>The entry a file holds for a key, if its text is a JSON object with that key.\<close>

definition file_entry :: "settings_file \<Rightarrow> string \<Rightarrow> pyval option" where
  "file_entry f key =
     (case f of
        Text d \<Rightarrow> (case d of PDict entries \<Rightarrow> map_of entries key | _ \<Rightarrow> None)
      | _ \<Rightarrow> None)"

section \<open>Examples\<close>

text \<open>
  A working directory \<open>/app\<close> whose \<open>fonts\<close> directory holds the two files of the
  specification's example; one without a \<open>fonts\<close> directory; a bundle with an empty
  root; and a frozen interpreter that has no \<open>sys._MEIPASS\<close>.
\<close>

definition example_environ :: environ where
  "example_environ =
     \<lparr>cwd = ''/app'', isdir = (\<lambda>p. p = ''/app/fonts''), frozen = False, MEIPASS = None,
      glob = (\<lambda>pattern.
        if pattern = ''/app/fonts/*.ttf'' then [''/app/fonts/Inter-Regular.ttf'']
        else if pattern = ''/app/fonts/*.otf'' then [''/app/fonts/Some_Font-VariableFont.otf'']
        else [])\<rparr>"

definition bare_environ :: environ where
  "bare_environ =
     \<lparr>cwd = ''/home/user'', isdir = (\<lambda>p. False), frozen = False, MEIPASS = None,
      glob = (\<lambda>pattern. [])\<rparr>"

definition bundle_environ :: environ where
  "bundle_environ =
     \<lparr>cwd = ''/home/user'', isdir = (\<lambda>p. False), frozen = True, MEIPASS = Some ''/tmp/_MEI42'',
      glob = (\<lambda>pattern. [])\<rparr>"

definition frozen_environ :: environ where
  "frozen_environ =
     \<lparr>cwd = ''/home/user'', isdir = (\<lambda>p. False), frozen = True, MEIPASS = None,
      glob = (\<lambda>pattern. [])\<rparr>"

text \<open>
  A settings document edited by hand: \<open>font_name\<close> is stored as \<open>put\<close> writes it,
  the entry of \<open>font_scale\<close> has no \<open>value\<close> field, and \<open>launch_maximized\<close> is bound to
  a number instead of a dictionary. Then the store on a missing file, and the store on
  a file whose text is \<open>null\<close>.
\<close>

definition example_document :: pyval where
  "example_document =
     PDict [(''font_name'', PDict [(''value'', PStr ''Inter'')]),
            (''font_scale'', PDict []),
            (''launch_maximized'', PInt 5)]"

definition example_store :: JsonStore where
  "example_store = \<lparr>data = example_document, on_disk = Text example_document\<rparr>"

definition empty_store :: JsonStore where
  "empty_store = \<lparr>data = PDict [], on_disk = Absent\<rparr>"

definition null_store :: JsonStore where
  "null_store = \<lparr>data = PNone, on_disk = Text PNone\<rparr>"

text \<open>The store on a file whose text is the JSON array \<open>["font_name"]\<close>.\<close>

definition listed_store :: JsonStore where
  "listed_store =
     \<lparr>data = PList [PStr ''font_name''], on_disk = Text (PList [PStr ''font_name''])\<rparr>"

text \<open>
  An instance initialized on a missing file, after a \<open>set\<close> whose write was refused:
  the store object has the entry of \<open>font_name\<close>, the file has not.
\<close>

definition unsaved_manager :: SettingsManager where
  "unsaved_manager =
     snd (set_setting (Fails Absent)
            (snd (initialize [] (construct [] None) (JsonStore_init Absent)))
            ''font_name'' (PStr ''Inter''))"

section \<open>Lemmas on the operations\<close>

lemma in_keys_iff: "(key \<in> fst ` set al) = (map_of al key \<noteq> None)"
  by (simp add: map_of_eq_None_iff)

text \<open>\<open>exists\<close> raises on a document that is not a container, and only there.\<close>

lemma store_exists_not_container:
  "\<not> is_container (data st) \<Longrightarrow> store_exists st key = Inl TypeError"
  by (simp add: store_exists_def is_container_def split: pyval.splits)

lemma load_round:
  "is_container (data st) \<Longrightarrow>
   load_loop st ((key, dv) # items) s
     = load_loop st items (AList.update key (expected_value st key dv) s)"
  by (auto simp: is_container_def store_exists_def store_get_def dict_get_def
      expected_value_def split: pyval.splits option.splits)

lemma load_loop_container:
  "is_container (data st) \<Longrightarrow>
   load_loop st items s
     = (Inr (), fold (\<lambda>item. AList.update (fst item) (expected_value st (fst item) (snd item)))
                  items s)"
proof (induction items arbitrary: s)
  case Nil
  then show ?case by simp
next
  case (Cons item items)
  obtain key dv where item: "item = (key, dv)" by (cases item)
  show ?case
    using Cons.IH [OF Cons.prems] load_round [OF Cons.prems]
    by (simp add: item)
qed

lemma load_loop_not_container:
  "\<not> is_container (data st) \<Longrightarrow> items \<noteq> [] \<Longrightarrow> load_loop st items s = (Inl TypeError, s)"
  by (cases items) (auto simp: store_exists_not_container)

text \<open>Assignments for items with distinct keys, read through \<open>map_of\<close>.\<close>

lemma map_of_fold_update:
  "distinct (map fst items) \<Longrightarrow>
   map_of (fold (\<lambda>item. AList.update (fst item) (f (fst item) (snd item))) items s) k =
     (case map_of items k of
        None \<Rightarrow> map_of s k
      | Some dv \<Rightarrow> Some (f k dv))"
proof (induction items arbitrary: s)
  case Nil
  then show ?case by simp
next
  case (Cons item items)
  obtain key dv where item: "item = (key, dv)" by (cases item)
  from Cons.prems have fresh: "map_of items key = None" and d: "distinct (map fst items)"
    by (auto simp: item map_of_eq_None_iff)
  show ?case
    using Cons.IH [OF d, of "AList.update key (f key dv) s"] fresh
    by (auto simp: item update_conv' split: option.splits)
qed

lemma distinct_DEFAULT_SETTINGS: "distinct (map fst (DEFAULT_SETTINGS af))"
  by (simp add: DEFAULT_SETTINGS_def)

lemma DEFAULT_SETTINGS_not_empty: "DEFAULT_SETTINGS af \<noteq> []"
  by (simp add: DEFAULT_SETTINGS_def)

lemma default_not_none: "map_of (DEFAULT_SETTINGS af) k = Some dv \<Longrightarrow> dv \<noteq> PNone"
  by (auto simp: DEFAULT_SETTINGS_def split: if_splits)

lemma initialize_container:
  "is_container (data st) \<Longrightarrow> fst (initialize af m (Inr st)) = Inr ()"
  "is_container (data st) \<Longrightarrow> store (snd (initialize af m (Inr st))) = Some st"
  "is_container (data st) \<Longrightarrow>
   map_of (settings (snd (initialize af m (Inr st)))) k =
     (case map_of (DEFAULT_SETTINGS af) k of
        None \<Rightarrow> map_of (settings m) k
      | Some dv \<Rightarrow> Some (expected_value st k dv))"
  by (simp_all add: initialize_def load_settings_def load_loop_container
      map_of_fold_update distinct_DEFAULT_SETTINGS)

lemma initialize_not_container:
  "\<not> is_container (data st) \<Longrightarrow>
   initialize af m (Inr st) = (Inl TypeError, m\<lparr>store := Some st\<rparr>)"
  by (simp add: initialize_def load_settings_def load_loop_not_container
      DEFAULT_SETTINGS_not_empty)

lemma settings_set_setting:
  "settings (snd (set_setting dk m k v)) = AList.update k v (settings m)"
  by (simp add: set_setting_def save_setting_def split: option.splits prod.splits)

lemma get_present: "map_of (settings m) k = Some v \<Longrightarrow> get af m k d = v"
  by (simp add: get_def)

text \<open>
  A \<open>put\<close> that returns normally found a dictionary and wrote the whole of it, with the
  new entry, to the file.
\<close>

lemma store_put_returns:
  "store_put dk st k v = (Inr (), st') \<Longrightarrow>
   \<exists>entries. data st = PDict entries
     \<and> data st' = PDict (AList.update k (PDict [(''value'', v)]) entries)
     \<and> on_disk st' = Text (data st')"
  by (auto simp: store_put_def Let_def split: pyval.splits disk.splits)

text \<open>Every method keeps the keys of \<open>DEFAULT_SETTINGS\<close> in the in-memory record.\<close>

lemma keys_initialize:
  "fst ` set (DEFAULT_SETTINGS af) \<subseteq> fst ` set (settings m) \<Longrightarrow>
   fst ` set (DEFAULT_SETTINGS af) \<subseteq> fst ` set (settings (snd (initialize af m opened)))"
proof (cases opened)
  case (Inl e)
  assume "fst ` set (DEFAULT_SETTINGS af) \<subseteq> fst ` set (settings m)"
  with Inl show ?thesis by (simp add: initialize_def)
next
  case (Inr st)
  assume keys: "fst ` set (DEFAULT_SETTINGS af) \<subseteq> fst ` set (settings m)"
  show ?thesis
  proof (cases "is_container (data st)")
    case True
    have "k \<in> fst ` set (settings (snd (initialize af m (Inr st))))"
      if "k \<in> fst ` set (DEFAULT_SETTINGS af)" for k
    proof -
      from that obtain dv where "map_of (DEFAULT_SETTINGS af) k = Some dv"
        by (auto simp: in_keys_iff)
      then have "map_of (settings (snd (initialize af m (Inr st)))) k \<noteq> None"
        by (simp add: initialize_container(3) [OF True])
      then show ?thesis by (simp add: in_keys_iff)
    qed
    then show ?thesis by (auto simp: Inr)
  next
    case False
    with keys show ?thesis by (simp add: Inr initialize_not_container)
  qed
qed

lemma keys_reachable:
  "reachable af m \<Longrightarrow> fst ` set (DEFAULT_SETTINGS af) \<subseteq> fst ` set (settings m)"
proof (induction rule: reachable.induct)
  case constructed
  then show ?case by (simp add: construct_def SettingsManager_new_def SettingsManager_init_def)
next
  case (constructed_again m)
  then show ?case by (simp add: construct_def SettingsManager_new_def SettingsManager_init_def)
next
  case (initialized m opened)
  then show ?case by (simp add: keys_initialize)
next
  case (was_set m dk key v)
  then show ?case by (auto simp: settings_set_setting dom_update)
next
  case (font_name_set m dk v)
  then show ?case by (auto simp: font_name_setter_def settings_set_setting dom_update)
next
  case (font_scale_set m dk v)
  then show ?case by (auto simp: font_scale_setter_def settings_set_setting dom_update)
next
  case (launch_maximized_set m dk v)
  then show ?case by (auto simp: launch_maximized_setter_def settings_set_setting dom_update)
qed

text \<open>Without \<open>None\<close> coming in, no key of \<open>DEFAULT_SETTINGS\<close> is bound to \<open>None\<close>.\<close>

lemma expected_value_not_none:
  "\<not> loads_none st k \<Longrightarrow> dv \<noteq> PNone \<Longrightarrow> expected_value st k dv \<noteq> PNone"
  by (auto simp: loads_none_def expected_value_def split: pyval.splits option.splits)

lemma none_free_initialize:
  assumes inv: "\<forall>k dv. map_of (DEFAULT_SETTINGS af) k = Some dv
            \<longrightarrow> (\<exists>v. map_of (settings m) k = Some v \<and> v \<noteq> PNone)"
    and clean: "list_all (\<lambda>item. \<not> loads_none st (fst item)) (DEFAULT_SETTINGS af)"
    and k: "map_of (DEFAULT_SETTINGS af) k = Some dv"
  shows "\<exists>v. map_of (settings (snd (initialize af m (Inr st)))) k = Some v \<and> v \<noteq> PNone"
proof (cases "is_container (data st)")
  case True
  have "(k, dv) \<in> set (DEFAULT_SETTINGS af)" using k by (rule map_of_SomeD)
  with clean have "\<not> loads_none st k" by (auto simp: list_all_iff)
  then have "expected_value st k dv \<noteq> PNone"
    using default_not_none [OF k] by (rule expected_value_not_none)
  then show ?thesis by (simp add: initialize_container(3) [OF True] k)
next
  case False
  with inv k show ?thesis by (simp add: initialize_not_container)
qed

lemma none_free_set_setting:
  assumes inv: "\<forall>k dv. map_of (DEFAULT_SETTINGS af) k = Some dv
            \<longrightarrow> (\<exists>v. map_of (settings m) k = Some v \<and> v \<noteq> PNone)"
    and v: "v \<noteq> PNone \<or> map_of (DEFAULT_SETTINGS af) key = None"
    and k: "map_of (DEFAULT_SETTINGS af) k = Some dv"
  shows "\<exists>w. map_of (settings (snd (set_setting dk m key v))) k = Some w \<and> w \<noteq> PNone"
  using inv v k by (auto simp: settings_set_setting update_conv')

lemma none_free_reachable:
  "reachable_without_none af m \<Longrightarrow>
   \<forall>k dv. map_of (DEFAULT_SETTINGS af) k = Some dv
     \<longrightarrow> (\<exists>v. map_of (settings m) k = Some v \<and> v \<noteq> PNone)"
proof (induction rule: reachable_without_none.induct)
  case constructed'
  then show ?case
    by (auto simp: construct_def SettingsManager_new_def SettingsManager_init_def
        dest: default_not_none)
next
  case (constructed_again' m)
  then show ?case
    by (auto simp: construct_def SettingsManager_new_def SettingsManager_init_def
        dest: default_not_none)
next
  case (not_opened' m e)
  then show ?case by (simp add: initialize_def)
next
  case (initialized' m st)
  then show ?case using none_free_initialize by blast
next
  case (was_set' m v key dk)
  then show ?case using none_free_set_setting by blast
next
  case (font_name_set' m v dk)
  then show ?case unfolding font_name_setter_def using none_free_set_setting by blast
next
  case (font_scale_set' m v dk)
  then show ?case unfolding font_scale_setter_def using none_free_set_setting by blast
next
  case (launch_maximized_set' m v dk)
  then show ?case unfolding launch_maximized_setter_def using none_free_set_setting by blast
qed

lemma unsaved_manager_eq:
  "unsaved_manager =
     \<lparr>initialized = True,
      store = Some \<lparr>data = PDict [(''font_name'', PDict [(''value'', PStr ''Inter'')])],
                    on_disk = Absent\<rparr>,
      settings = [(''font_name'', PStr ''Inter''), (''font_scale'', PFloat 1),
                  (''launch_maximized'', PBool False)]\<rparr>"
  by (simp add: unsaved_manager_def construct_def SettingsManager_new_def
      SettingsManager_init_def initialize_def load_settings_def store_exists_def
      store_put_def save_setting_def set_setting_def DEFAULT_SETTINGS_def default_font_def
      JsonStore_init_def)

lemma reachable_unsaved_manager: "reachable [] unsaved_manager"
  unfolding unsaved_manager_def
  by (intro reachable.was_set reachable.initialized reachable.constructed)

lemmas scan_defs =
  scan_available_fonts_def get_fonts_directory_def path_join_def display_name_def
  basename_def splitext_def rfind_def strip_def isspace_def splitext_loop.simps
  suffix_to_prefix

lemmas manager_defs =
  construct_def SettingsManager_new_def SettingsManager_init_def initialize_def
  load_settings_def store_exists_def store_get_def store_put_def dict_get_def
  save_setting_def set_setting_def get_def DEFAULT_SETTINGS_def default_font_def
  JsonStore_init_def

section \<open>Round trips\<close>

text \<open>
  Claim C1. After \<open>set(k, v)\<close>, \<open>get(k)\<close> on the same instance returns \<open>v\<close>, whatever the
  record held before and whether or not \<open>initialize()\<close> has run. It holds for every key
  and value, with or without a caller default, and also when the write to the store
  raised: the record is updated before the store is touched.
\<close>

theorem set_then_get: "get af (snd (set_setting dk m k v)) k d = v"
  by (simp add: get_def set_setting_def save_setting_def update_conv'
      split: option.splits prod.splits)

theorem set_then_get_witness:
  "set_setting (Fails Absent) (construct [] None\<lparr>store := Some empty_store\<rparr>)
      ''font_scale'' (PFloat 2)
     = (Inl OSError,
        \<lparr>initialized = True,
         store = Some \<lparr>data = PDict [(''font_scale'', PDict [(''value'', PFloat 2)])],
                       on_disk = Absent\<rparr>,
         settings = [(''font_name'', PStr ''Roboto''), (''font_scale'', PFloat 2),
                     (''launch_maximized'', PBool False)]\<rparr>)
   \<and> get [] (snd (set_setting (Fails Absent) (construct [] None\<lparr>store := Some empty_store\<rparr>)
                     ''font_scale'' (PFloat 2))) ''font_scale'' PNone = PFloat 2"
  using set_then_get [of "[]" "Fails Absent" "construct [] None\<lparr>store := Some empty_store\<rparr>"
      "''font_scale''" "PFloat 2" PNone]
  by (simp add: manager_defs empty_store_def)

text \<open>
  Claim C2. A value that \<open>set(k, v)\<close> wrote to the file of an initialized instance is
  what \<open>get(k)\<close> returns after any instance runs \<open>initialize()\<close> on a store holding the
  document of that file, for every key \<open>k\<close> of \<open>DEFAULT_SETTINGS\<close>; and that
  \<open>initialize()\<close> returns normally.
\<close>

theorem persisted_value_survives:
  assumes "map_of (DEFAULT_SETTINGS af) k = Some default_value"
    and "store m = Some st"
    and "set_setting dk m k v = (Inr (), m')"
    and "store m' = Some st'"
    and "on_disk st' = Text (data st2)"
  shows "fst (initialize af m2 (Inr st2)) = Inr ()
    \<and> get af (snd (initialize af m2 (Inr st2))) k d = v"
proof -
  have "store_put dk st k v = (Inr (), st')"
    using assms(2,3,4)
    by (auto simp: set_setting_def save_setting_def split: prod.splits)
  from store_put_returns [OF this] assms(5)
  obtain entries where "data st2 = PDict (AList.update k (PDict [(''value'', v)]) entries)"
    by auto
  then have c: "is_container (data st2)" and "expected_value st2 k default_value = v"
    by (simp_all add: is_container_def expected_value_def update_conv')
  then have "map_of (settings (snd (initialize af m2 (Inr st2)))) k = Some v"
    by (simp add: initialize_container(3) assms(1))
  then show ?thesis
    by (simp add: get_present initialize_container(1) [OF c])
qed

theorem persisted_value_survives_witness:
  "map_of (DEFAULT_SETTINGS []) ''font_name'' = Some (PStr ''Roboto'')
   \<and> store (construct [] None\<lparr>store := Some empty_store\<rparr>) = Some empty_store
   \<and> set_setting Writes (construct [] None\<lparr>store := Some empty_store\<rparr>) ''font_name''
        (PStr ''Inter'')
       = (Inr (),
          \<lparr>initialized = True,
           store = Some \<lparr>data = PDict [(''font_name'', PDict [(''value'', PStr ''Inter'')])],
                         on_disk = Text (PDict [(''font_name'',
                                                 PDict [(''value'', PStr ''Inter'')])])\<rparr>,
           settings = [(''font_name'', PStr ''Inter''), (''font_scale'', PFloat 1),
                       (''launch_maximized'', PBool False)]\<rparr>)
   \<and> JsonStore_init (Text (PDict [(''font_name'', PDict [(''value'', PStr ''Inter'')])]))
       = Inr \<lparr>data = PDict [(''font_name'', PDict [(''value'', PStr ''Inter'')])],
              on_disk = Text (PDict [(''font_name'', PDict [(''value'', PStr ''Inter'')])])\<rparr>
   \<and> fst (initialize [] (construct [] None)
            (JsonStore_init
               (Text (PDict [(''font_name'', PDict [(''value'', PStr ''Inter'')])]))))
       = Inr ()
   \<and> get [] (snd (initialize [] (construct [] None)
                     (JsonStore_init
                        (Text (PDict [(''font_name'', PDict [(''value'', PStr ''Inter'')])])))))
        ''font_name'' PNone = PStr ''Inter''"
proof -
  let ?doc = "PDict [(''font_name'', PDict [(''value'', PStr ''Inter'')])]"
  let ?st' = "\<lparr>data = ?doc, on_disk = Text ?doc\<rparr>"
  let ?m' = "\<lparr>initialized = True, store = Some ?st',
              settings = [(''font_name'', PStr ''Inter''), (''font_scale'', PFloat 1),
                          (''launch_maximized'', PBool False)]\<rparr>"
  have d: "map_of (DEFAULT_SETTINGS []) ''font_name'' = Some (PStr ''Roboto'')"
    by (simp add: DEFAULT_SETTINGS_def default_font_def)
  have s: "store (construct [] None\<lparr>store := Some empty_store\<rparr>) = Some empty_store"
    by simp
  have w: "set_setting Writes (construct [] None\<lparr>store := Some empty_store\<rparr>) ''font_name''
             (PStr ''Inter'') = (Inr (), ?m')"
    by (simp add: manager_defs empty_store_def)
  have o: "JsonStore_init (Text ?doc) = Inr ?st'"
    by (simp add: JsonStore_init_def)
  have e: "on_disk ?st' = Text (data ?st')" by simp
  have "store ?m' = Some ?st'" by simp
  from persisted_value_survives [OF d s w this e, of "construct [] None" PNone] d s w o
  show ?thesis by simp
qed

section \<open>The in-memory record\<close>

text \<open>
  Claim C3, as amended. In every state an instance can reach by construction,
  \<open>initialize()\<close>, \<open>set\<close> and the property setters, every key of \<open>DEFAULT_SETTINGS\<close> is
  present in the in-memory record and \<open>get\<close> returns the record's entry for it. In
  every state reached without \<open>None\<close> coming in for such a key (no \<open>set\<close> or setter
  passes \<open>None\<close> for it, no loaded store holds \<open>None\<close> as its value), \<open>get\<close> never
  yields \<open>None\<close> for it.
\<close>

theorem recognized_keys_resolve:
  "(reachable af m \<and> map_of (DEFAULT_SETTINGS af) k = Some default_value
      \<longrightarrow> (\<exists>v. map_of (settings m) k = Some v \<and> get af m k d = v))
   \<and> (reachable_without_none af m \<and> map_of (DEFAULT_SETTINGS af) k = Some default_value
      \<longrightarrow> get af m k d \<noteq> PNone)"
proof (intro conjI impI)
  assume a: "reachable af m \<and> map_of (DEFAULT_SETTINGS af) k = Some default_value"
  then have "k \<in> fst ` set (DEFAULT_SETTINGS af)" by (simp add: in_keys_iff)
  with keys_reachable a have "k \<in> fst ` set (settings m)" by blast
  then obtain v where "map_of (settings m) k = Some v" by (auto simp: in_keys_iff)
  then show "\<exists>v. map_of (settings m) k = Some v \<and> get af m k d = v"
    by (simp add: get_present)
next
  assume a: "reachable_without_none af m
    \<and> map_of (DEFAULT_SETTINGS af) k = Some default_value"
  with none_free_reachable obtain v where "map_of (settings m) k = Some v" "v \<noteq> PNone"
    by blast
  then show "get af m k d \<noteq> PNone" by (simp add: get_present)
qed

theorem recognized_keys_resolve_witness:
  "reachable [] (snd (set_setting Writes (snd (initialize [] (construct [] None)
       (Inr example_store))) ''font_scale'' (PFloat 2)))
   \<and> reachable_without_none [] (snd (set_setting Writes (snd (initialize [] (construct [] None)
       (Inr example_store))) ''font_scale'' (PFloat 2)))
   \<and> map_of (DEFAULT_SETTINGS []) ''font_scale'' = Some (PFloat 1)
   \<and> get [] (snd (set_setting Writes (snd (initialize [] (construct [] None)
       (Inr example_store))) ''font_scale'' (PFloat 2))) ''font_scale'' PNone = PFloat 2
   \<and> get [] (snd (set_setting Writes (snd (initialize [] (construct [] None)
       (Inr example_store))) ''font_scale'' (PFloat 2))) ''font_scale'' PNone \<noteq> PNone"
proof -
  let ?m = "snd (set_setting Writes (snd (initialize [] (construct [] None)
       (Inr example_store))) ''font_scale'' (PFloat 2))"
  have r: "reachable [] ?m"
    by (intro reachable.was_set reachable.initialized reachable.constructed)
  have clean: "list_all (\<lambda>item. \<not> loads_none example_store (fst item)) (DEFAULT_SETTINGS [])"
    by (simp add: DEFAULT_SETTINGS_def loads_none_def example_store_def example_document_def)
  have n: "reachable_without_none [] ?m"
    by (intro reachable_without_none.was_set' reachable_without_none.initialized'
        reachable_without_none.constructed' clean) simp
  have d: "map_of (DEFAULT_SETTINGS []) ''font_scale'' = Some (PFloat 1)"
    by (simp add: DEFAULT_SETTINGS_def)
  have g: "get [] ?m ''font_scale'' PNone = PFloat 2"
    by (simp add: get_def settings_set_setting update_conv')
  from recognized_keys_resolve [of "[]" ?m "''font_scale''" "PFloat 1" PNone] r n d g
  show ?thesis by blast
qed

text \<open>
  The claim as the specification states it, that \<open>get(k)\<close> never yields \<open>None\<close> for a
  recognized key after any operation, fails: \<open>set\<close> takes any value, so after
  \<open>set('font_name', None)\<close> on a new instance \<open>get('font_name')\<close> is \<open>None\<close>.
\<close>

theorem get_none_for_recognized_key:
  "reachable [] (snd (set_setting Writes (construct [] None) ''font_name'' PNone))
   \<and> map_of (DEFAULT_SETTINGS []) ''font_name'' = Some (PStr ''Roboto'')
   \<and> get [] (snd (set_setting Writes (construct [] None) ''font_name'' PNone))
        ''font_name'' PNone = PNone"
proof -
  have "reachable [] (snd (set_setting Writes (construct [] None) ''font_name'' PNone))"
    by (rule reachable.was_set) (rule reachable.constructed)
  then show ?thesis by (simp add: manager_defs)
qed

section \<open>Reading a setting\<close>

text \<open>
  Claim C4, as amended. \<open>get(key, default)\<close> returns the in-memory value of \<open>key\<close> if
  the record has the key, otherwise the caller's default, otherwise the module's default
  for the key, otherwise \<open>None\<close>; so a key that is neither in the record nor in
  \<open>DEFAULT_SETTINGS\<close> gives \<open>None\<close> when no default is passed. \<open>get\<close> is a total
  function of the record alone: it returns for every argument, and two instances with
  the same record answer alike whatever their stores are.
\<close>

theorem get_follows_spec:
  "get af m key dflt = get_spec (DEFAULT_SETTINGS af) (settings m) key dflt
   \<and> (map_of (settings m) key = None \<and> map_of (DEFAULT_SETTINGS af) key = None
        \<longrightarrow> get af m key PNone = PNone)
   \<and> (settings m' = settings m \<longrightarrow> get af m' key dflt = get af m key dflt)"
  by (auto simp: get_def get_spec_def in_keys_iff split: option.splits)

theorem get_follows_spec_witness:
  "map_of (settings (construct [] None)) ''theme'' = None
   \<and> map_of (DEFAULT_SETTINGS []) ''theme'' = None
   \<and> get [] (construct [] None) ''theme'' PNone = PNone
   \<and> settings (construct [] None\<lparr>store := Some example_store\<rparr>) = settings (construct [] None)
   \<and> get [] (construct [] None\<lparr>store := Some example_store\<rparr>) ''font_name'' PNone
       = get [] (construct [] None) ''font_name'' PNone"
proof -
  have a: "map_of (settings (construct [] None)) ''theme'' = None"
    and b: "map_of (DEFAULT_SETTINGS []) ''theme'' = None"
    and c: "settings (construct [] None\<lparr>store := Some example_store\<rparr>)
              = settings (construct [] None)"
    by (simp_all add: manager_defs)
  have g: "get [] (construct [] None) ''theme'' PNone = PNone"
    using get_follows_spec [of "[]" "construct [] None" "''theme''" PNone "construct [] None"]
      a b by blast
  have "get [] (construct [] None\<lparr>store := Some example_store\<rparr>) ''font_name'' PNone
          = get [] (construct [] None) ''font_name'' PNone"
    using get_follows_spec [of "[]" "construct [] None" "''font_name''" PNone
        "construct [] None\<lparr>store := Some example_store\<rparr>"] c by blast
  with a b c g show ?thesis by blast
qed

text \<open>
  The last sentence of the claim as the specification states it, that \<open>get\<close> with an
  unrecognized key and no caller default returns \<open>None\<close> in every state, fails: \<open>set\<close>
  takes any key, and after \<open>set('theme', 'dark')\<close> the record has the key.
\<close>

theorem get_unrecognized_key_not_none:
  "map_of (DEFAULT_SETTINGS []) ''theme'' = None
   \<and> reachable [] (snd (set_setting Writes (construct [] None) ''theme'' (PStr ''dark'')))
   \<and> get [] (snd (set_setting Writes (construct [] None) ''theme'' (PStr ''dark'')))
        ''theme'' PNone = PStr ''dark''
   \<and> get [] (snd (set_setting Writes (construct [] None) ''theme'' (PStr ''dark'')))
        ''theme'' PNone \<noteq> PNone"
proof -
  have "reachable [] (snd (set_setting Writes (construct [] None) ''theme'' (PStr ''dark'')))"
    by (rule reachable.was_set) (rule reachable.constructed)
  then show ?thesis by (simp add: manager_defs)
qed

section \<open>Loading\<close>

text \<open>
  Where the document of the opened store is a JSON object, array or string, the loop
  does what the specification says of it: \<open>initialize()\<close> returns without raising and
  gives every key \<open>k\<close> of \<open>DEFAULT_SETTINGS\<close> its value in the in-memory record, the
  default if the store lacks \<open>k\<close>; if the store has \<open>k\<close>, the stored value when the
  entry is a dictionary with a \<open>value\<close> field, the default when it lacks the field,
  and the default when reading the entry raises. Keys outside \<open>DEFAULT_SETTINGS\<close> keep
  what the record had.
\<close>

theorem initialize_loads_stored_or_default:
  assumes "map_of (DEFAULT_SETTINGS af) k = Some default_value"
    and "is_container (data st)"
    and "initialize af m (Inr st) = (r, m')"
  shows "r = Inr ()
    \<and> (store_exists st k = Inr False \<longrightarrow> map_of (settings m') k = Some default_value)
    \<and> (store_exists st k = Inr True \<and> store_get st k = Inr (PDict items)
          \<and> map_of items ''value'' = Some v
         \<longrightarrow> map_of (settings m') k = Some v)
    \<and> (store_exists st k = Inr True \<and> store_get st k = Inr (PDict items)
          \<and> map_of items ''value'' = None
         \<longrightarrow> map_of (settings m') k = Some default_value)
    \<and> (store_exists st k = Inr True \<and> store_get st k = Inr stored
          \<and> dict_get stored ''value'' default_value = Inl e
         \<longrightarrow> map_of (settings m') k = Some default_value)
    \<and> (store_exists st k = Inr True \<and> store_get st k = Inl e
         \<longrightarrow> map_of (settings m') k = Some default_value)
    \<and> (map_of (DEFAULT_SETTINGS af) k' = None
         \<longrightarrow> map_of (settings m') k' = map_of (settings m) k')"
proof -
  have m': "m' = snd (initialize af m (Inr st))" and r': "r = fst (initialize af m (Inr st))"
    using assms(3) by simp_all
  have r: "r = Inr ()" by (simp add: r' initialize_container(1) [OF assms(2)])
  have v: "map_of (settings m') k = Some (expected_value st k default_value)"
    by (simp add: m' initialize_container(3) [OF assms(2)] assms(1))
  have a: "store_exists st k = Inr False \<longrightarrow> map_of (settings m') k = Some default_value"
    by (auto simp: v expected_value_def store_exists_def split: pyval.splits option.splits)
  have b: "store_exists st k = Inr True \<and> store_get st k = Inr (PDict items)
          \<and> map_of items ''value'' = Some v
         \<longrightarrow> map_of (settings m') k = Some v"
    by (auto simp: v expected_value_def store_get_def split: pyval.splits option.splits)
  have c: "store_exists st k = Inr True \<and> store_get st k = Inr (PDict items)
          \<and> map_of items ''value'' = None
         \<longrightarrow> map_of (settings m') k = Some default_value"
    by (auto simp: v expected_value_def store_get_def split: pyval.splits option.splits)
  have d: "store_exists st k = Inr True \<and> store_get st k = Inr stored
          \<and> dict_get stored ''value'' default_value = Inl e
         \<longrightarrow> map_of (settings m') k = Some default_value"
    by (auto simp: v expected_value_def store_get_def dict_get_def
        split: pyval.splits option.splits)
  have e: "store_exists st k = Inr True \<and> store_get st k = Inl e
         \<longrightarrow> map_of (settings m') k = Some default_value"
    by (auto simp: v expected_value_def store_get_def store_exists_def
        split: pyval.splits option.splits)
  have f: "map_of (DEFAULT_SETTINGS af) k' = None
         \<longrightarrow> map_of (settings m') k' = map_of (settings m) k'"
    by (simp add: m' initialize_container(3) [OF assms(2)])
  from r a b c d e f show ?thesis by blast
qed

text \<open>
  The cases at work: on the hand-edited document \<open>font_name\<close> is read, \<open>font_scale\<close>
  lacks the field and reading \<open>launch_maximized\<close> raises \<open>AttributeError\<close>; on the
  missing file \<open>font_name\<close> is not in the store; on the array \<open>exists\<close> finds
  \<open>font_name\<close> and the read raises \<open>TypeError\<close>.
\<close>

theorem initialize_loads_stored_or_default_witness:
  "is_container (data example_store) \<and> is_container (data empty_store)
   \<and> is_container (data listed_store)
   \<and> store_exists example_store ''font_name'' = Inr True
   \<and> store_get example_store ''font_name'' = Inr (PDict [(''value'', PStr ''Inter'')])
   \<and> store_exists example_store ''font_scale'' = Inr True
   \<and> store_get example_store ''font_scale'' = Inr (PDict [])
   \<and> store_exists example_store ''launch_maximized'' = Inr True
   \<and> store_get example_store ''launch_maximized'' = Inr (PInt 5)
   \<and> dict_get (PInt 5) ''value'' (PBool False) = Inl AttributeError
   \<and> store_exists empty_store ''font_name'' = Inr False
   \<and> store_exists listed_store ''font_name'' = Inr True
   \<and> store_get listed_store ''font_name'' = Inl TypeError
   \<and> map_of (DEFAULT_SETTINGS []) ''theme'' = None
   \<and> fst (initialize [] (construct [] None) (Inr example_store)) = Inr ()
   \<and> map_of (settings (snd (initialize [] (construct [] None) (Inr example_store))))
        ''font_name'' = Some (PStr ''Inter'')
   \<and> map_of (settings (snd (initialize [] (construct [] None) (Inr example_store))))
        ''font_scale'' = Some (PFloat 1)
   \<and> map_of (settings (snd (initialize [] (construct [] None) (Inr example_store))))
        ''launch_maximized'' = Some (PBool False)
   \<and> map_of (settings (snd (initialize [] (construct [] None) (Inr example_store))))
        ''theme'' = map_of (settings (construct [] None)) ''theme''
   \<and> map_of (settings (snd (initialize [] (construct [] None) (Inr empty_store))))
        ''font_name'' = Some (PStr ''Roboto'')
   \<and> fst (initialize [] (construct [] None) (Inr listed_store)) = Inr ()
   \<and> map_of (settings (snd (initialize [] (construct [] None) (Inr listed_store))))
        ''font_name'' = Some (PStr ''Roboto'')"
proof -
  let ?m = "construct [] None"
  have d1: "map_of (DEFAULT_SETTINGS []) ''font_name'' = Some (PStr ''Roboto'')"
    and d2: "map_of (DEFAULT_SETTINGS []) ''font_scale'' = Some (PFloat 1)"
    and d3: "map_of (DEFAULT_SETTINGS []) ''launch_maximized'' = Some (PBool False)"
    and d4: "map_of (DEFAULT_SETTINGS []) ''theme'' = None"
    by (simp_all add: DEFAULT_SETTINGS_def default_font_def)
  have c1: "is_container (data example_store)" and c2: "is_container (data empty_store)"
    and c3: "is_container (data listed_store)"
    by (simp_all add: is_container_def example_store_def example_document_def
        empty_store_def listed_store_def)
  have g1: "store_exists example_store ''font_name'' = Inr True"
    and g2: "store_get example_store ''font_name'' = Inr (PDict [(''value'', PStr ''Inter'')])"
    and g3: "store_exists example_store ''font_scale'' = Inr True"
    and g4: "store_get example_store ''font_scale'' = Inr (PDict [])"
    and g5: "store_exists example_store ''launch_maximized'' = Inr True"
    and g6: "store_get example_store ''launch_maximized'' = Inr (PInt 5)"
    and g7: "dict_get (PInt 5) ''value'' (PBool False) = Inl AttributeError"
    and g8: "store_exists empty_store ''font_name'' = Inr False"
    and g9: "store_exists listed_store ''font_name'' = Inr True"
    and g10: "store_get listed_store ''font_name'' = Inl TypeError"
    by (simp_all add: store_get_def store_exists_def dict_get_def example_store_def
        example_document_def empty_store_def listed_store_def)
  have i: "initialize [] ?m (Inr example_store)
      = (fst (initialize [] ?m (Inr example_store)), snd (initialize [] ?m (Inr example_store)))"
    and j: "initialize [] ?m (Inr empty_store)
      = (fst (initialize [] ?m (Inr empty_store)), snd (initialize [] ?m (Inr empty_store)))"
    and l: "initialize [] ?m (Inr listed_store)
      = (fst (initialize [] ?m (Inr listed_store)), snd (initialize [] ?m (Inr listed_store)))"
    by simp_all
  note t1 = initialize_loads_stored_or_default [OF d1 c1 i,
      of "[(''value'', PStr ''Inter'')]" "PStr ''Inter''" PNone KeyError "''theme''"]
  note t2 = initialize_loads_stored_or_default [OF d2 c1 i,
      of "[]" PNone PNone KeyError "''theme''"]
  note t3 = initialize_loads_stored_or_default [OF d3 c1 i,
      of "[]" PNone "PInt 5" AttributeError "''theme''"]
  note t4 = initialize_loads_stored_or_default [OF d1 c2 j,
      of "[]" PNone PNone KeyError "''theme''"]
  note t5 = initialize_loads_stored_or_default [OF d1 c3 l,
      of "[]" PNone PNone TypeError "''theme''"]
  have "fst (initialize [] ?m (Inr example_store)) = Inr ()" using t1 by blast
  moreover have "map_of (settings (snd (initialize [] ?m (Inr example_store)))) ''font_name''
      = Some (PStr ''Inter'')"
    using t1 g1 g2 by simp
  moreover have "map_of (settings (snd (initialize [] ?m (Inr example_store)))) ''font_scale''
      = Some (PFloat 1)"
    using t2 g3 g4 by simp
  moreover have "map_of (settings (snd (initialize [] ?m (Inr example_store))))
      ''launch_maximized'' = Some (PBool False)"
    using t3 g5 g6 g7 by simp
  moreover have "map_of (settings (snd (initialize [] ?m (Inr example_store)))) ''theme''
      = map_of (settings ?m) ''theme''"
    using t1 d4 by blast
  moreover have "map_of (settings (snd (initialize [] ?m (Inr empty_store)))) ''font_name''
      = Some (PStr ''Roboto'')"
    using t4 g8 by blast
  moreover have "fst (initialize [] ?m (Inr listed_store)) = Inr ()" using t5 by blast
  moreover have "map_of (settings (snd (initialize [] ?m (Inr listed_store)))) ''font_name''
      = Some (PStr ''Roboto'')"
    using t5 g9 g10 by blast
  ultimately show ?thesis using c1 c2 c3 g1 g2 g3 g4 g5 g6 g7 g8 g9 g10 d4 by blast
qed

text \<open>
  Claim C5. During \<open>initialize()\<close> every key of \<open>DEFAULT_SETTINGS\<close> gets its stored
  value or its default, and no read error escapes the loading phase. The code breaks
  this on a settings file whose text is \<open>null\<close>, a number or a boolean: the store
  opens, the test \<open>exists\<close> of line 129 stands outside the \<open>try\<close> and raises
  \<open>TypeError\<close>, and \<open>initialize()\<close> raises it with the record as it was, where the
  reads inside the \<open>try\<close> would have fallen back to the defaults.
\<close>

theorem initialize_raises_on_null_document:
  "JsonStore_init (Text PNone) = Inr null_store
   \<and> initialize [] (construct [] None) (JsonStore_init (Text PNone))
       = (Inl TypeError, construct [] None\<lparr>store := Some null_store\<rparr>)
   \<and> fst (initialize [] (construct [] None) (JsonStore_init (Text (PInt 42)))) = Inl TypeError
   \<and> fst (initialize [] (construct [] None) (JsonStore_init (Text (PBool True))))
       = Inl TypeError"
  by (simp add: JsonStore_init_def null_store_def initialize_def load_settings_def
      store_exists_def DEFAULT_SETTINGS_def construct_def SettingsManager_new_def
      SettingsManager_init_def)

text \<open>
  Claim C6. On a new instance, after \<open>initialize()\<close> on a store with no keys, \<open>get(k)\<close>
  is the default of \<open>k\<close> for every key \<open>k\<close> of \<open>DEFAULT_SETTINGS\<close>.
\<close>

theorem fresh_initialize_gives_defaults:
  assumes "map_of (DEFAULT_SETTINGS af) k = Some default_value" and "data st = PDict []"
  shows "get af (snd (initialize af (construct af None) (Inr st))) k PNone = default_value"
proof -
  have c: "is_container (data st)" by (simp add: assms(2) is_container_def)
  show ?thesis
    by (rule get_present)
      (simp add: initialize_container(3) [OF c] assms expected_value_def)
qed

theorem fresh_initialize_gives_defaults_witness:
  "map_of (DEFAULT_SETTINGS [(''Inter'', ''/app/fonts/Inter-Regular.ttf'')]) ''font_name''
     = Some (PStr ''Inter'')
   \<and> JsonStore_init Absent = Inr empty_store
   \<and> data empty_store = PDict []
   \<and> get [(''Inter'', ''/app/fonts/Inter-Regular.ttf'')]
        (snd (initialize [(''Inter'', ''/app/fonts/Inter-Regular.ttf'')]
               (construct [(''Inter'', ''/app/fonts/Inter-Regular.ttf'')] None)
               (Inr empty_store)))
        ''font_name'' PNone = PStr ''Inter''"
proof -
  have d: "map_of (DEFAULT_SETTINGS [(''Inter'', ''/app/fonts/Inter-Regular.ttf'')])
             ''font_name'' = Some (PStr ''Inter'')"
    by (simp add: DEFAULT_SETTINGS_def default_font_def)
  have o: "JsonStore_init Absent = Inr empty_store"
    by (simp add: JsonStore_init_def empty_store_def)
  have e: "data empty_store = PDict []" by (simp add: empty_store_def)
  from fresh_initialize_gives_defaults [OF d e] d o e show ?thesis by blast
qed

section \<open>Writing a setting\<close>

text \<open>
  Claim C7, as amended. \<open>set(key, value)\<close> always assigns the in-memory record first.
  Without a store it then returns normally and nothing else changes. With a store it
  puts the pair: the store object binds \<open>key\<close> to \<open>{'value': value}\<close>, whatever the
  file system answers, and then writes its whole document to the file, which after a
  write that succeeds holds exactly the store object's document. When the put raises,
  \<open>set\<close> raises the same exception and the instance keeps the assignment to the record
  and the store object as the put left it.
\<close>

theorem set_updates_memory_then_persists:
  "settings (snd (set_setting dk m k v)) = AList.update k v (settings m)
   \<and> (store m = None \<longrightarrow>
        set_setting dk m k v = (Inr (), m\<lparr>settings := AList.update k v (settings m)\<rparr>))
   \<and> (store m = Some st \<and> data st = PDict entries \<longrightarrow>
        (\<exists>st'. store (snd (set_setting dk m k v)) = Some st'
           \<and> data st' = PDict (AList.update k (PDict [(''value'', v)]) entries)))
   \<and> (store m = Some st \<and> data st = PDict entries \<longrightarrow>
        set_setting Writes m k v
          = (Inr (),
             m\<lparr>settings := AList.update k v (settings m),
               store := Some
                 \<lparr>data = PDict (AList.update k (PDict [(''value'', v)]) entries),
                  on_disk = Text (PDict (AList.update k (PDict [(''value'', v)]) entries))\<rparr>\<rparr>))
   \<and> (store m = Some st \<and> store_put dk st k v = (Inl e, st') \<longrightarrow>
        set_setting dk m k v
          = (Inl e, m\<lparr>settings := AList.update k v (settings m), store := Some st'\<rparr>))"
  by (auto simp: set_setting_def save_setting_def store_put_def Let_def
      split: option.splits prod.splits disk.splits)

text \<open>
  Without a store; with the store on a missing file and a write that succeeds; with the
  same store and a write that is refused, where the store object keeps the entry.
\<close>

theorem set_updates_memory_then_persists_witness:
  "store (construct [] None) = None
   \<and> set_setting Writes (construct [] None) ''launch_maximized'' (PBool True)
       = (Inr (),
          \<lparr>initialized = True, store = None,
           settings = [(''font_name'', PStr ''Roboto''), (''font_scale'', PFloat 1),
                       (''launch_maximized'', PBool True)]\<rparr>)
   \<and> store (construct [] None\<lparr>store := Some empty_store\<rparr>) = Some empty_store
   \<and> data empty_store = PDict []
   \<and> set_setting Writes (construct [] None\<lparr>store := Some empty_store\<rparr>) ''launch_maximized''
        (PBool True)
       = (Inr (),
          \<lparr>initialized = True,
           store = Some
             \<lparr>data = PDict [(''launch_maximized'', PDict [(''value'', PBool True)])],
              on_disk = Text (PDict [(''launch_maximized'', PDict [(''value'', PBool True)])])\<rparr>,
           settings = [(''font_name'', PStr ''Roboto''), (''font_scale'', PFloat 1),
                       (''launch_maximized'', PBool True)]\<rparr>)
   \<and> store_put (Fails Absent) empty_store ''launch_maximized'' (PBool True)
       = (Inl OSError,
          \<lparr>data = PDict [(''launch_maximized'', PDict [(''value'', PBool True)])],
           on_disk = Absent\<rparr>)
   \<and> set_setting (Fails Absent) (construct [] None\<lparr>store := Some empty_store\<rparr>)
        ''launch_maximized'' (PBool True)
       = (Inl OSError,
          \<lparr>initialized = True,
           store = Some
             \<lparr>data = PDict [(''launch_maximized'', PDict [(''value'', PBool True)])],
              on_disk = Absent\<rparr>,
           settings = [(''font_name'', PStr ''Roboto''), (''font_scale'', PFloat 1),
                       (''launch_maximized'', PBool True)]\<rparr>)"
proof -
  let ?st' = "\<lparr>data = PDict [(''launch_maximized'', PDict [(''value'', PBool True)])],
               on_disk = Absent\<rparr>"
  let ?m0 = "construct [] None"
  let ?m1 = "construct [] None\<lparr>store := Some empty_store\<rparr>"
  have n: "store ?m0 = None"
    by (simp add: construct_def SettingsManager_new_def SettingsManager_init_def)
  have s: "store ?m1 = Some empty_store" by simp
  have d: "data empty_store = PDict []" by (simp add: empty_store_def)
  have q: "store_put (Fails Absent) empty_store ''launch_maximized'' (PBool True)
             = (Inl OSError, ?st')"
    by (simp add: store_put_def empty_store_def)
  have m0: "?m0 = \<lparr>initialized = True, store = None,
                   settings = [(''font_name'', PStr ''Roboto''), (''font_scale'', PFloat 1),
                               (''launch_maximized'', PBool False)]\<rparr>"
    by (simp add: construct_def SettingsManager_new_def SettingsManager_init_def
        DEFAULT_SETTINGS_def default_font_def)
  note t0 = set_updates_memory_then_persists
      [of Writes ?m0 "''launch_maximized''" "PBool True" empty_store "[]" OSError ?st']
  note t1 = set_updates_memory_then_persists
      [of Writes ?m1 "''launch_maximized''" "PBool True" empty_store "[]" OSError ?st']
  note t2 = set_updates_memory_then_persists
      [of "Fails Absent" ?m1 "''launch_maximized''" "PBool True" empty_store "[]" OSError ?st']
  have a: "set_setting Writes ?m0 ''launch_maximized'' (PBool True)
       = (Inr (), ?m0\<lparr>settings := AList.update ''launch_maximized'' (PBool True)
                                     (settings ?m0)\<rparr>)"
    using t0 n by blast
  have b: "set_setting Writes ?m1 ''launch_maximized'' (PBool True)
       = (Inr (),
          ?m1\<lparr>settings := AList.update ''launch_maximized'' (PBool True) (settings ?m1),
               store := Some
                 \<lparr>data = PDict (AList.update ''launch_maximized''
                                  (PDict [(''value'', PBool True)]) []),
                  on_disk = Text (PDict (AList.update ''launch_maximized''
                                           (PDict [(''value'', PBool True)]) []))\<rparr>\<rparr>)"
    using t1 s d by blast
  have c: "set_setting (Fails Absent) ?m1 ''launch_maximized'' (PBool True)
       = (Inl OSError,
          ?m1\<lparr>settings := AList.update ''launch_maximized'' (PBool True) (settings ?m1),
               store := Some ?st'\<rparr>)"
    using t2 s q by blast
  from n s d q show ?thesis
    unfolding a b c by (simp add: m0)
qed

text \<open>
  The claim as the specification states it, that a \<open>set\<close> on an initialized store
  writes the single pair, fails after a write was refused: the store object still has
  the entry of \<open>font_name\<close>, and the next \<open>set\<close>, of \<open>launch_maximized\<close>, writes both
  pairs to a file that had neither.
\<close>

theorem set_writes_pending_pair_too:
  "reachable [] unsaved_manager
   \<and> store unsaved_manager
       = Some \<lparr>data = PDict [(''font_name'', PDict [(''value'', PStr ''Inter'')])],
                on_disk = Absent\<rparr>
   \<and> set_setting Writes unsaved_manager ''launch_maximized'' (PBool True)
       = (Inr (),
          \<lparr>initialized = True,
           store = Some
             \<lparr>data = PDict [(''font_name'', PDict [(''value'', PStr ''Inter'')]),
                            (''launch_maximized'', PDict [(''value'', PBool True)])],
              on_disk = Text (PDict [(''font_name'', PDict [(''value'', PStr ''Inter'')]),
                                     (''launch_maximized'', PDict [(''value'', PBool True)])])\<rparr>,
           settings = [(''font_name'', PStr ''Inter''), (''font_scale'', PFloat 1),
                       (''launch_maximized'', PBool True)]\<rparr>)"
  using reachable_unsaved_manager
  by (simp add: unsaved_manager_eq set_setting_def save_setting_def store_put_def)

text \<open>
  Claim C10, as amended. \<open>set(k, v)\<close> leaves every other key \<open>k'\<close> as it was in the
  in-memory record (\<open>get(k')\<close> answers the same before and after) and in the store
  object; an instance without a store still has none. When the write succeeds the file
  holds the store object's document, so its entry of \<open>k'\<close> is the one the store object
  had: the file's entry of \<open>k'\<close> is unchanged whenever file and store object agreed on
  \<open>k'\<close> before the call.
\<close>

theorem set_leaves_other_keys:
  assumes "k \<noteq> k'"
  shows "get af (snd (set_setting dk m k v)) k' d = get af m k' d
    \<and> (store m = None \<longrightarrow> store (snd (set_setting dk m k v)) = None)
    \<and> (store m = Some st \<longrightarrow>
         (\<exists>st'. store (snd (set_setting dk m k v)) = Some st'
            \<and> store_get st' k' = store_get st k'
            \<and> (fst (set_setting dk m k v) = Inr () \<longrightarrow>
                 on_disk st' = Text (data st')
                 \<and> file_entry (on_disk st') k' = file_entry (Text (data st)) k'
                 \<and> (file_entry (on_disk st) k' = file_entry (Text (data st)) k' \<longrightarrow>
                      file_entry (on_disk st') k' = file_entry (on_disk st) k'))))"
  using assms
  by (auto simp: get_def set_setting_def save_setting_def store_put_def store_get_def
      file_entry_def update_conv' Let_def
      split: option.splits prod.splits disk.splits pyval.splits)

theorem set_leaves_other_keys_witness:
  "''font_scale'' \<noteq> ''font_name''
   \<and> store (construct [] None) = None
   \<and> store (construct [] None\<lparr>store := Some example_store\<rparr>) = Some example_store
   \<and> fst (set_setting Writes (construct [] None\<lparr>store := Some example_store\<rparr>)
            ''font_scale'' (PFloat 2)) = Inr ()
   \<and> file_entry (on_disk example_store) ''font_name''
       = file_entry (Text (data example_store)) ''font_name''
   \<and> get [] (snd (set_setting Writes (construct [] None) ''font_scale'' (PFloat 2)))
        ''font_name'' PNone
       = get [] (construct [] None) ''font_name'' PNone
   \<and> store (snd (set_setting Writes (construct [] None) ''font_scale'' (PFloat 2))) = None
   \<and> (\<exists>st'. store (snd (set_setting Writes (construct [] None\<lparr>store := Some example_store\<rparr>)
                            ''font_scale'' (PFloat 2))) = Some st'
          \<and> store_get st' ''font_name'' = store_get example_store ''font_name''
          \<and> on_disk st' = Text (data st')
          \<and> file_entry (on_disk st') ''font_name''
              = file_entry (on_disk example_store) ''font_name'')"
proof -
  let ?m1 = "construct [] None\<lparr>store := Some example_store\<rparr>"
  have ne: "''font_scale'' \<noteq> ''font_name''" by simp
  have n: "store (construct [] None) = None"
    by (simp add: construct_def SettingsManager_new_def SettingsManager_init_def)
  have s: "store ?m1 = Some example_store" by simp
  have ok: "fst (set_setting Writes ?m1 ''font_scale'' (PFloat 2)) = Inr ()"
    by (simp add: set_setting_def save_setting_def store_put_def example_store_def
        example_document_def)
  have ag: "file_entry (on_disk example_store) ''font_name''
       = file_entry (Text (data example_store)) ''font_name''"
    by (simp add: example_store_def)
  note t1 = set_leaves_other_keys [OF ne, of "[]" Writes "construct [] None" "PFloat 2" PNone
      example_store]
  note t2 = set_leaves_other_keys [OF ne, of "[]" Writes ?m1 "PFloat 2" PNone example_store]
  have a: "get [] (snd (set_setting Writes (construct [] None) ''font_scale'' (PFloat 2)))
        ''font_name'' PNone = get [] (construct [] None) ''font_name'' PNone"
    and b: "store (snd (set_setting Writes (construct [] None) ''font_scale'' (PFloat 2)))
        = None"
    using t1 n by blast+
  have c: "\<exists>st'. store (snd (set_setting Writes ?m1 ''font_scale'' (PFloat 2))) = Some st'
          \<and> store_get st' ''font_name'' = store_get example_store ''font_name''
          \<and> on_disk st' = Text (data st')
          \<and> file_entry (on_disk st') ''font_name''
              = file_entry (on_disk example_store) ''font_name''"
    using t2 s ok ag by blast
  from ne n s ok ag a b c show ?thesis by blast
qed

text \<open>
  The claim as the specification states it, that a \<open>set\<close> that persists leaves every
  other stored key's entry unchanged, fails after a write was refused: the \<open>set\<close> of
  \<open>font_scale\<close> succeeds and the file, which had no entry of \<open>font_name\<close>, now has one.
\<close>

theorem set_changes_other_stored_entry:
  "reachable [] unsaved_manager
   \<and> ''font_scale'' \<noteq> ''font_name''
   \<and> store unsaved_manager
       = Some \<lparr>data = PDict [(''font_name'', PDict [(''value'', PStr ''Inter'')])],
                on_disk = Absent\<rparr>
   \<and> file_entry Absent ''font_name'' = None
   \<and> set_setting Writes unsaved_manager ''font_scale'' (PFloat 2)
       = (Inr (),
          \<lparr>initialized = True,
           store = Some
             \<lparr>data = PDict [(''font_name'', PDict [(''value'', PStr ''Inter'')]),
                            (''font_scale'', PDict [(''value'', PFloat 2)])],
              on_disk = Text (PDict [(''font_name'', PDict [(''value'', PStr ''Inter'')]),
                                     (''font_scale'', PDict [(''value'', PFloat 2)])])\<rparr>,
           settings = [(''font_name'', PStr ''Inter''), (''font_scale'', PFloat 2),
                       (''launch_maximized'', PBool False)]\<rparr>)
   \<and> file_entry (Text (PDict [(''font_name'', PDict [(''value'', PStr ''Inter'')]),
                               (''font_scale'', PDict [(''value'', PFloat 2)])])) ''font_name''
       = Some (PDict [(''value'', PStr ''Inter'')])"
  using reachable_unsaved_manager
  by (simp add: unsaved_manager_eq set_setting_def save_setting_def store_put_def
      file_entry_def)

section \<open>The font scanner and the default font\<close>

text \<open>
  Claim C8. The display name the scanner derives from \<open>Inter-Regular.ttf\<close> is \<open>Inter\<close>
  and from \<open>Some_Font-VariableFont.otf\<close> it is \<open>Some Font\<close>; a scan of a directory
  holding the two files returns the catalog with these two names.
\<close>

theorem display_names_of_example_fonts:
  "display_name ''Inter-Regular.ttf'' = ''Inter''
   \<and> display_name ''Some_Font-VariableFont.otf'' = ''Some Font''
   \<and> scan_available_fonts example_environ
       = Inr [(''Inter'', ''/app/fonts/Inter-Regular.ttf''),
              (''Some Font'', ''/app/fonts/Some_Font-VariableFont.otf'')]"
proof -
  have "display_name ''Inter-Regular.ttf'' = ''Inter''"
    by (simp add: scan_defs)
  moreover have "display_name ''Some_Font-VariableFont.otf'' = ''Some Font''"
    by (simp add: scan_defs)
  moreover have "scan_available_fonts example_environ
       = Inr [(''Inter'', ''/app/fonts/Inter-Regular.ttf''),
              (''Some Font'', ''/app/fonts/Some_Font-VariableFont.otf'')]"
    by (simp add: scan_defs example_environ_def)
  ultimately show ?thesis by blast
qed

text \<open>
  Stated from the environment: when neither place has a font directory, the \<open>fonts\<close>
  directory of the working directory and, in a frozen interpreter, the \<open>fonts\<close>
  directory of the bundle root \<open>sys._MEIPASS\<close>, which the interpreter defines, then
  \<open>scan_available_fonts\<close> returns the empty catalog without raising, and with an empty
  catalog the default of \<open>font_name\<close> is \<open>Roboto\<close>; with a catalog that is not empty
  the default is its first key.
\<close>

theorem default_font_of_catalog:
  "(\<not> isdir env (path_join (cwd env) ''fonts'')
      \<and> (frozen env \<longrightarrow>
           MEIPASS env = Some bundle \<and> \<not> isdir env (path_join bundle ''fonts''))
     \<longrightarrow> get_fonts_directory env = Inr None
         \<and> scan_available_fonts env = Inr []
         \<and> default_font [] = ''Roboto''
         \<and> map_of (DEFAULT_SETTINGS []) ''font_name'' = Some (PStr ''Roboto''))
   \<and> (fonts \<noteq> [] \<longrightarrow>
        default_font fonts = fst (hd fonts)
        \<and> map_of (DEFAULT_SETTINGS fonts) ''font_name'' = Some (PStr (fst (hd fonts))))"
  by (cases fonts)
    (auto simp: scan_available_fonts_def get_fonts_directory_def Let_def default_font_def
      DEFAULT_SETTINGS_def)

theorem default_font_of_catalog_witness:
  "\<not> isdir bare_environ (path_join (cwd bare_environ) ''fonts'')
   \<and> \<not> frozen bare_environ
   \<and> scan_available_fonts bare_environ = Inr []
   \<and> \<not> isdir bundle_environ (path_join (cwd bundle_environ) ''fonts'')
   \<and> frozen bundle_environ
   \<and> MEIPASS bundle_environ = Some ''/tmp/_MEI42''
   \<and> \<not> isdir bundle_environ (path_join ''/tmp/_MEI42'' ''fonts'')
   \<and> scan_available_fonts bundle_environ = Inr []
   \<and> map_of (DEFAULT_SETTINGS []) ''font_name'' = Some (PStr ''Roboto'')
   \<and> [(''Inter'', ''/app/fonts/Inter-Regular.ttf''),
       (''Some Font'', ''/app/fonts/Some_Font-VariableFont.otf'')] \<noteq> []
   \<and> map_of (DEFAULT_SETTINGS [(''Inter'', ''/app/fonts/Inter-Regular.ttf''),
                (''Some Font'', ''/app/fonts/Some_Font-VariableFont.otf'')]) ''font_name''
       = Some (PStr ''Inter'')"
proof -
  have b: "\<not> isdir bare_environ (path_join (cwd bare_environ) ''fonts'')"
    "\<not> frozen bare_environ"
    by (simp_all add: bare_environ_def)
  have u: "\<not> isdir bundle_environ (path_join (cwd bundle_environ) ''fonts'')"
    "frozen bundle_environ" "MEIPASS bundle_environ = Some ''/tmp/_MEI42''"
    "\<not> isdir bundle_environ (path_join ''/tmp/_MEI42'' ''fonts'')"
    by (simp_all add: bundle_environ_def)
  have ne: "[(''Inter'', ''/app/fonts/Inter-Regular.ttf''),
       (''Some Font'', ''/app/fonts/Some_Font-VariableFont.otf'')] \<noteq> []"
    by simp
  note t1 = default_font_of_catalog [of bare_environ "''/tmp/_MEI42''"
      "[(''Inter'', ''/app/fonts/Inter-Regular.ttf''),
        (''Some Font'', ''/app/fonts/Some_Font-VariableFont.otf'')]"]
  note t2 = default_font_of_catalog [of bundle_environ "''/tmp/_MEI42''" "[]"]
  have s1: "scan_available_fonts bare_environ = Inr []" using t1 b by blast
  have s2: "scan_available_fonts bundle_environ = Inr []" using t2 u by blast
  have r: "map_of (DEFAULT_SETTINGS []) ''font_name'' = Some (PStr ''Roboto'')"
    using t1 b by blast
  have f: "map_of (DEFAULT_SETTINGS [(''Inter'', ''/app/fonts/Inter-Regular.ttf''),
                (''Some Font'', ''/app/fonts/Some_Font-VariableFont.otf'')]) ''font_name''
       = Some (PStr ''Inter'')"
    using t1 ne by simp
  from b u ne s1 s2 r f show ?thesis by blast
qed

text \<open>
  Claim C9. When no font directory is found, \<open>scan_available_fonts()\<close> returns the
  empty catalog without raising and the default of \<open>font_name\<close> is \<open>Roboto\<close>. The
  code breaks this in a frozen interpreter that does not define \<open>sys._MEIPASS\<close>:
  \<open>sys.frozen\<close> is read with \<open>getattr\<close> and a default, \<open>sys._MEIPASS\<close> is read
  directly, so with no \<open>fonts\<close> directory in the working directory line 23 raises
  \<open>AttributeError\<close> and the scan raises with it.
\<close>

theorem scan_raises_without_bundle_root:
  "\<not> isdir frozen_environ (path_join (cwd frozen_environ) ''fonts'')
   \<and> frozen frozen_environ \<and> MEIPASS frozen_environ = None
   \<and> get_fonts_directory frozen_environ = Inl AttributeError
   \<and> scan_available_fonts frozen_environ = Inl AttributeError"
  by (simp add: scan_available_fonts_def get_fonts_directory_def frozen_environ_def)

end
